theory Spec2Isabelle
  imports Complex_Main
begin

section \<open>JavaScript numbers\<close>

text \<open>
  The program computes with JavaScript numbers. A number is modelled as a real
  (arithmetic is exact: no rounding, no overflow, one zero) or one of the three
  non-finite values \<open>NaN\<close>, \<open>Infinity\<close> and \<open>-Infinity\<close>, so that a division
  by zero and the square root of a negative number are results of the model as they
  are results of the program. A zero divisor counts as \<open>+0\<close>.
\<close>

datatype number = NaN | PInf | NInf | Fin real

instantiation number :: "{uminus, plus, minus, times, inverse, abs}"
begin

fun uminus_number :: "number \<Rightarrow> number" where
  "uminus_number NaN = NaN"
| "uminus_number PInf = NInf"
| "uminus_number NInf = PInf"
| "uminus_number (Fin a) = Fin (- a)"

fun plus_number :: "number \<Rightarrow> number \<Rightarrow> number" where
  "plus_number (Fin a) (Fin b) = Fin (a + b)"
| "plus_number NaN b = NaN"
| "plus_number a NaN = NaN"
| "plus_number PInf NInf = NaN"
| "plus_number NInf PInf = NaN"
| "plus_number PInf b = PInf"
| "plus_number a PInf = PInf"
| "plus_number NInf b = NInf"
| "plus_number a NInf = NInf"

definition minus_number :: "number \<Rightarrow> number \<Rightarrow> number" where
  "minus_number a b = a + (- b)"

fun times_number :: "number \<Rightarrow> number \<Rightarrow> number" where
  "times_number (Fin a) (Fin b) = Fin (a * b)"
| "times_number NaN b = NaN"
| "times_number a NaN = NaN"
| "times_number (Fin a) PInf = (if a = 0 then NaN else if 0 < a then PInf else NInf)"
| "times_number (Fin a) NInf = (if a = 0 then NaN else if 0 < a then NInf else PInf)"
| "times_number PInf (Fin b) = (if b = 0 then NaN else if 0 < b then PInf else NInf)"
| "times_number NInf (Fin b) = (if b = 0 then NaN else if 0 < b then NInf else PInf)"
| "times_number PInf PInf = PInf"
| "times_number PInf NInf = NInf"
| "times_number NInf PInf = NInf"
| "times_number NInf NInf = PInf"

fun divide_number :: "number \<Rightarrow> number \<Rightarrow> number" where
  "divide_number (Fin a) (Fin b) =
     (if b = 0 then (if a = 0 then NaN else if 0 < a then PInf else NInf)
      else Fin (a / b))"
| "divide_number NaN b = NaN"
| "divide_number a NaN = NaN"
| "divide_number (Fin a) PInf = Fin 0"
| "divide_number (Fin a) NInf = Fin 0"
| "divide_number PInf (Fin b) = (if 0 \<le> b then PInf else NInf)"
| "divide_number NInf (Fin b) = (if 0 \<le> b then NInf else PInf)"
| "divide_number PInf b = NaN"
| "divide_number NInf b = NaN"

definition inverse_number :: "number \<Rightarrow> number" where
  "inverse_number a = divide (Fin 1) a"

fun abs_number :: "number \<Rightarrow> number" where
  "abs_number NaN = NaN"
| "abs_number PInf = PInf"
| "abs_number NInf = PInf"
| "abs_number (Fin a) = Fin \<bar>a\<bar>"

instance ..

end

text \<open>The comparison \<open>a < b\<close> of JavaScript: false as soon as an operand is \<open>NaN\<close>.\<close>

fun lt :: "number \<Rightarrow> number \<Rightarrow> bool" where
  "lt (Fin a) (Fin b) = (a < b)"
| "lt NaN b = False"
| "lt a NaN = False"
| "lt a NInf = False"
| "lt PInf b = False"
| "lt NInf b = True"
| "lt a PInf = True"

text \<open>\<open>a <= b\<close> of JavaScript, used to state orderings.\<close>

fun le :: "number \<Rightarrow> number \<Rightarrow> bool" where
  "le (Fin a) (Fin b) = (a \<le> b)"
| "le NaN b = False"
| "le a NaN = False"
| "le NInf b = True"
| "le a PInf = True"
| "le a NInf = False"
| "le PInf b = False"

subsection \<open>The functions of \<open>Math\<close> the program calls\<close>

definition Math_PI :: number where
  "Math_PI = Fin pi"

definition Math_abs :: "number \<Rightarrow> number" where
  "Math_abs a = \<bar>a\<bar>"

fun Math_sqrt :: "number \<Rightarrow> number" where
  "Math_sqrt (Fin a) = (if a < 0 then NaN else Fin (sqrt a))"
| "Math_sqrt PInf = PInf"
| "Math_sqrt a = NaN"

fun Math_sin :: "number \<Rightarrow> number" where
  "Math_sin (Fin a) = Fin (sin a)"
| "Math_sin a = NaN"

fun Math_cos :: "number \<Rightarrow> number" where
  "Math_cos (Fin a) = Fin (cos a)"
| "Math_cos a = NaN"

fun Math_max :: "number \<Rightarrow> number \<Rightarrow> number" where
  "Math_max (Fin a) (Fin b) = Fin (max a b)"
| "Math_max NaN b = NaN"
| "Math_max a NaN = NaN"
| "Math_max PInf b = PInf"
| "Math_max a PInf = PInf"
| "Math_max NInf b = b"
| "Math_max a NInf = a"

fun Math_min :: "number \<Rightarrow> number \<Rightarrow> number" where
  "Math_min (Fin a) (Fin b) = Fin (min a b)"
| "Math_min NaN b = NaN"
| "Math_min a NaN = NaN"
| "Math_min NInf b = NInf"
| "Math_min a NInf = NInf"
| "Math_min PInf b = b"
| "Math_min a PInf = a"

text \<open>
  \<open>Math.atan2(y, x)\<close> on finite arguments: the angle of the point \<open>(x, y)\<close> in
  \<open>(-\<pi>, \<pi>]\<close>, and \<open>0\<close> at the origin.
\<close>

definition atan2 :: "real \<Rightarrow> real \<Rightarrow> real" where
  "atan2 b a =
     (if 0 < a then arctan (b / a)
      else if a < 0 then (if 0 \<le> b then arctan (b / a) + pi else arctan (b / a) - pi)
      else if 0 < b then pi / 2
      else if b < 0 then - (pi / 2)
      else 0)"

fun Math_atan2 :: "number \<Rightarrow> number \<Rightarrow> number" where
  "Math_atan2 (Fin b) (Fin a) = Fin (atan2 b a)"
| "Math_atan2 NaN a = NaN"
| "Math_atan2 b NaN = NaN"
| "Math_atan2 (Fin b) PInf = Fin 0"
| "Math_atan2 (Fin b) NInf = (if 0 \<le> b then Fin pi else Fin (- pi))"
| "Math_atan2 PInf (Fin a) = Fin (pi / 2)"
| "Math_atan2 NInf (Fin a) = Fin (- (pi / 2))"
| "Math_atan2 PInf PInf = Fin (pi / 4)"
| "Math_atan2 PInf NInf = Fin (3 * pi / 4)"
| "Math_atan2 NInf PInf = Fin (- (pi / 4))"
| "Math_atan2 NInf NInf = Fin (- (3 * pi / 4))"

section \<open>The class \<open>KeplerianOrbit\<close>\<close>

record KeplerianOrbit =
  semimajor_axis :: number
  eccentricity :: number
  argument_of_periapsis :: number
  clockwise :: bool

text \<open>A point object \<open>{ x, y }\<close>.\<close>

record point =
  px :: number
  py :: number

text \<open>
  The constructor, called with its four arguments (the defaults \<open>0.0\<close>, \<open>0\<close> and
  \<open>false\<close> stand in for the last three when the caller leaves them out).
\<close>

definition new_KeplerianOrbit :: "number \<Rightarrow> number \<Rightarrow> number \<Rightarrow> bool \<Rightarrow> KeplerianOrbit" where
  "new_KeplerianOrbit a e w c =
     \<lparr>semimajor_axis = Math_abs a,
      eccentricity = Math_abs e,
      argument_of_periapsis = w,
      clockwise = c\<rparr>"

definition semiminor_axis :: "KeplerianOrbit \<Rightarrow> number" where
  "semiminor_axis this =
     semimajor_axis this * Math_sqrt (Fin 1 - eccentricity this * eccentricity this)"

definition focal_point :: "KeplerianOrbit \<Rightarrow> number" where
  "focal_point this = eccentricity this * semimajor_axis this"

definition periapsis :: "KeplerianOrbit \<Rightarrow> number" where
  "periapsis this = (Fin 1 - eccentricity this) * semimajor_axis this"

definition apoapsis :: "KeplerianOrbit \<Rightarrow> number" where
  "apoapsis this = (Fin 1 + eccentricity this) * semimajor_axis this"

definition rotate_point :: "KeplerianOrbit \<Rightarrow> point \<Rightarrow> point" where
  "rotate_point this p =
     (let y = (if clockwise this then - py p else py p);
          cos_w = Math_cos (argument_of_periapsis this);
          sin_w = Math_sin (argument_of_periapsis this)
      in \<lparr>px = px p * cos_w + y * sin_w,
          py = y * cos_w - px p * sin_w\<rparr>)"

definition is_clockwise :: "KeplerianOrbit \<Rightarrow> bool" where
  "is_clockwise this = clockwise this"

section \<open>The three anomaly classes\<close>

text \<open>Each class has the one field \<open>angle\<close>; the constructor stores its argument.\<close>

datatype TrueAnomaly = TrueAnomaly (TrueAnomaly_angle: number)

datatype EccentricAnomaly = EccentricAnomaly (EccentricAnomaly_angle: number)

datatype MeanAnomaly = MeanAnomaly (MeanAnomaly_angle: number)

text \<open>What a call can give besides a number: the value \<open>undefined\<close>, or a thrown error.\<close>

datatype js_value = Undefined | Number number

datatype error = TypeError string

subsection \<open>\<open>TrueAnomaly\<close>\<close>

definition TrueAnomaly_radius :: "TrueAnomaly \<Rightarrow> KeplerianOrbit \<Rightarrow> number" where
  "TrueAnomaly_radius this orbit =
     (semimajor_axis orbit * (Fin 1 - eccentricity orbit * eccentricity orbit))
       / (Fin 1 + eccentricity orbit * Math_cos (TrueAnomaly_angle this))"

definition TrueAnomaly_point :: "TrueAnomaly \<Rightarrow> KeplerianOrbit \<Rightarrow> point" where
  "TrueAnomaly_point this orbit =
     (let radius = TrueAnomaly_radius this orbit;
          angle = TrueAnomaly_angle this + argument_of_periapsis orbit
      in \<lparr>px = Math_cos angle * radius,
          py = Math_sin angle * radius\<rparr>)"

definition TrueAnomaly_point2d :: "TrueAnomaly \<Rightarrow> KeplerianOrbit \<Rightarrow> point" where
  "TrueAnomaly_point2d this orbit = rotate_point orbit (TrueAnomaly_point this orbit)"

definition TrueAnomaly_eccentric_anomaly :: "TrueAnomaly \<Rightarrow> KeplerianOrbit \<Rightarrow> EccentricAnomaly" where
  "TrueAnomaly_eccentric_anomaly this orbit =
     (let p = TrueAnomaly_point this orbit;
          angle = Math_atan2 (py p / semiminor_axis orbit)
                             ((px p + focal_point orbit) / semimajor_axis orbit)
      in EccentricAnomaly angle)"

subsection \<open>\<open>EccentricAnomaly\<close>\<close>

definition EccentricAnomaly_point :: "EccentricAnomaly \<Rightarrow> KeplerianOrbit \<Rightarrow> point" where
  "EccentricAnomaly_point this orbit =
     \<lparr>px = Math_cos (EccentricAnomaly_angle this) * semimajor_axis orbit - focal_point orbit,
      py = Math_sin (EccentricAnomaly_angle this) * semiminor_axis orbit\<rparr>"

definition EccentricAnomaly_point2d :: "EccentricAnomaly \<Rightarrow> KeplerianOrbit \<Rightarrow> point" where
  "EccentricAnomaly_point2d this orbit = rotate_point orbit (EccentricAnomaly_point this orbit)"

text \<open>
  The class declares the methods \<open>set_degrees\<close>, \<open>get_degrees\<close>, \<open>radius\<close>,
  \<open>point\<close>, \<open>point2d\<close>, \<open>true_anomaly\<close> and \<open>mean_anomaly\<close>. Looking up a
  name among those that take an orbit and give a point finds \<open>point\<close> and
  \<open>point2d\<close>; any other name is not such a method of the object.
\<close>

definition EccentricAnomaly_point_method ::
    "string \<Rightarrow> (EccentricAnomaly \<Rightarrow> KeplerianOrbit \<Rightarrow> point) option" where
  "EccentricAnomaly_point_method name =
     (if name = ''point'' then Some EccentricAnomaly_point
      else if name = ''point2d'' then Some EccentricAnomaly_point2d
      else None)"

text \<open>
  \<open>radius\<close> calls \<open>this.position(orbit)\<close>. The class has no member \<open>position\<close>, so
  the property is \<open>undefined\<close> and calling it throws a \<open>TypeError\<close>.
\<close>

definition EccentricAnomaly_radius :: "EccentricAnomaly \<Rightarrow> KeplerianOrbit \<Rightarrow> error + number" where
  "EccentricAnomaly_radius this orbit =
     (case EccentricAnomaly_point_method ''position'' of
        None \<Rightarrow> Inl (TypeError ''this.position is not a function'')
      | Some position \<Rightarrow>
          (let p = position this orbit
           in Inr (Math_sqrt (px p * px p + py p * py p))))"

definition EccentricAnomaly_true_anomaly :: "EccentricAnomaly \<Rightarrow> KeplerianOrbit \<Rightarrow> TrueAnomaly" where
  "EccentricAnomaly_true_anomaly this orbit =
     (let p = EccentricAnomaly_point this orbit;
          angle = Math_atan2 (py p) (px p)
      in TrueAnomaly angle)"

definition EccentricAnomaly_mean_anomaly :: "EccentricAnomaly \<Rightarrow> KeplerianOrbit \<Rightarrow> MeanAnomaly" where
  "EccentricAnomaly_mean_anomaly this orbit =
     MeanAnomaly (EccentricAnomaly_angle this
                    - eccentricity orbit * Math_sin (EccentricAnomaly_angle this))"

text \<open>\<open>TrueAnomaly.mean_anomaly\<close>, which goes through the eccentric anomaly.\<close>

definition TrueAnomaly_mean_anomaly :: "TrueAnomaly \<Rightarrow> KeplerianOrbit \<Rightarrow> MeanAnomaly" where
  "TrueAnomaly_mean_anomaly this orbit =
     EccentricAnomaly_mean_anomaly (TrueAnomaly_eccentric_anomaly this orbit) orbit"

subsection \<open>\<open>MeanAnomaly\<close>\<close>

definition tolerance :: number where
  "tolerance = Fin (1 / 100000) * (Math_PI / Fin 180)"

definition clamp :: "number \<Rightarrow> number \<Rightarrow> number \<Rightarrow> number" where
  "clamp x mn mx = Math_min (Math_max x mn) mx"

text \<open>
  The \<open>for\<close> loop of \<open>eccentric_anomaly\<close>, from the counter \<open>i\<close> and the current
  value of the variable \<open>eccentric_anomaly\<close>. Beside the value the program returns,
  the model gives the number of loop bodies that have run when it returns; the program
  does not return that count.
\<close>

function eccentric_anomaly_loop ::
    "MeanAnomaly \<Rightarrow> KeplerianOrbit \<Rightarrow> nat \<Rightarrow> number \<Rightarrow> number \<times> nat" where
  "eccentric_anomaly_loop this orbit i eccentric_anomaly =
     (if i < 10 then
        (let f = eccentric_anomaly
                   - eccentricity orbit * Math_sin eccentric_anomaly
                   - MeanAnomaly_angle this;
             eccentric_anomaly' =
               eccentric_anomaly
                 - clamp (f / (Fin 1 - eccentricity orbit * Math_cos eccentric_anomaly))
                         (- eccentricity orbit / Fin 2)
                         (eccentricity orbit / Fin 2)
         in if lt (Math_abs f) tolerance then (eccentric_anomaly', i + 1)
            else eccentric_anomaly_loop this orbit (i + 1) eccentric_anomaly')
      else (eccentric_anomaly, i))"
  by pat_completeness auto
termination
  by (relation "measure (\<lambda>(this, orbit, i, E). 10 - i)") auto

definition MeanAnomaly_eccentric_anomaly :: "MeanAnomaly \<Rightarrow> KeplerianOrbit \<Rightarrow> EccentricAnomaly" where
  "MeanAnomaly_eccentric_anomaly this orbit =
     EccentricAnomaly (fst (eccentric_anomaly_loop this orbit 0 (MeanAnomaly_angle this)))"

definition MeanAnomaly_true_anomaly :: "MeanAnomaly \<Rightarrow> KeplerianOrbit \<Rightarrow> TrueAnomaly" where
  "MeanAnomaly_true_anomaly this orbit =
     EccentricAnomaly_true_anomaly (MeanAnomaly_eccentric_anomaly this orbit) orbit"

definition MeanAnomaly_point :: "MeanAnomaly \<Rightarrow> KeplerianOrbit \<Rightarrow> point" where
  "MeanAnomaly_point this orbit =
     EccentricAnomaly_point (MeanAnomaly_eccentric_anomaly this orbit) orbit"

definition MeanAnomaly_point2d :: "MeanAnomaly \<Rightarrow> KeplerianOrbit \<Rightarrow> point" where
  "MeanAnomaly_point2d this orbit =
     EccentricAnomaly_point2d (MeanAnomaly_eccentric_anomaly this orbit) orbit"

text \<open>
  The body of \<open>radius_at_mean_anomaly\<close> is the expression statement
  \<open>this.true_anomaly(orbit).radius(orbit)\<close>: its value is computed and dropped, and
  the function ends without a \<open>return\<close>, so the call gives \<open>undefined\<close>.
\<close>

definition radius_at_mean_anomaly :: "MeanAnomaly \<Rightarrow> KeplerianOrbit \<Rightarrow> js_value" where
  "radius_at_mean_anomaly this orbit =
     (let dropped = TrueAnomaly_radius (MeanAnomaly_true_anomaly this orbit) orbit
      in Undefined)"

section \<open>Kepler's equation solved as the specification words it\<close>

text \<open>
  A second definition of the solver, following the specification and not the code:
  the tolerance is \<open>0.00001\<close> degrees in radians; an iteration takes the residual
  \<open>f(E) = E - e sin E - M\<close> and the derivative \<open>1 - e cos E\<close>, clamps their
  quotient to \<open>[-e/2, e/2]\<close> and subtracts it from \<open>E\<close>; then comes the convergence
  check on the current \<open>E\<close>: if \<open>|f(E)|\<close> is below the tolerance, the current
  \<open>E\<close> is returned; after ten iterations the last \<open>E\<close> is returned.
\<close>

definition spec_tolerance :: number where
  "spec_tolerance = Fin (0.00001 * pi / 180)"

definition spec_residual :: "number \<Rightarrow> number \<Rightarrow> number \<Rightarrow> number" where
  "spec_residual e M E = E - e * Math_sin E - M"

definition spec_derivative :: "number \<Rightarrow> number \<Rightarrow> number" where
  "spec_derivative e E = Fin 1 - e * Math_cos E"

definition spec_clamp :: "number \<Rightarrow> number \<Rightarrow> number \<Rightarrow> number" where
  "spec_clamp lo hi d = (if lt d lo then lo else if lt hi d then hi else d)"

definition spec_update :: "number \<Rightarrow> number \<Rightarrow> number \<Rightarrow> number" where
  "spec_update e M E =
     E - spec_clamp (- (e / Fin 2)) (e / Fin 2) (spec_residual e M E / spec_derivative e E)"

fun spec_newton :: "nat \<Rightarrow> number \<Rightarrow> number \<Rightarrow> number \<Rightarrow> number" where
  "spec_newton 0 e M E = E"
| "spec_newton (Suc n) e M E =
     (if lt (Math_abs (spec_residual e M (spec_update e M E))) spec_tolerance
      then spec_update e M E
      else spec_newton n e M (spec_update e M E))"

definition spec_eccentric_anomaly :: "number \<Rightarrow> number \<Rightarrow> number" where
  "spec_eccentric_anomaly e M = spec_newton 10 e M M"

text \<open>
  The same iteration with the convergence check amended: the residual compared with
  the tolerance is the one the iteration computed for its step, from \<open>E\<close> before the
  update, and the value returned is the updated \<open>E\<close>.
\<close>

fun amended_newton :: "nat \<Rightarrow> number \<Rightarrow> number \<Rightarrow> number \<Rightarrow> number" where
  "amended_newton 0 e M E = E"
| "amended_newton (Suc n) e M E =
     (if lt (Math_abs (spec_residual e M E)) spec_tolerance then spec_update e M E
      else amended_newton n e M (spec_update e M E))"

definition amended_eccentric_anomaly :: "number \<Rightarrow> number \<Rightarrow> number" where
  "amended_eccentric_anomaly e M = amended_newton 10 e M M"

section \<open>Objects with identity\<close>

text \<open>
  To speak of which object a method returns and of what a call does to the objects that
  exist, the objects live in a heap: a reference is an index into the list of the objects
  allocated so far, and \<open>new\<close> appends one. Point objects \<open>{ x, y }\<close> stay values.
\<close>

type_synonym ref = nat

datatype object =
    OrbitObject KeplerianOrbit
  | TrueObject TrueAnomaly
  | EccentricObject EccentricAnomaly
  | MeanObject MeanAnomaly

type_synonym heap = "object list"

definition deref :: "heap \<Rightarrow> ref \<Rightarrow> object option" where
  "deref h r = (if r < length h then Some (h ! r) else None)"

definition new :: "heap \<Rightarrow> object \<Rightarrow> ref \<times> heap" where
  "new h obj = (length h, h @ [obj])"

definition the_orbit :: "heap \<Rightarrow> ref \<Rightarrow> KeplerianOrbit option" where
  "the_orbit h r = (case deref h r of Some (OrbitObject ob) \<Rightarrow> Some ob | _ \<Rightarrow> None)"

definition the_true :: "heap \<Rightarrow> ref \<Rightarrow> TrueAnomaly option" where
  "the_true h r = (case deref h r of Some (TrueObject t) \<Rightarrow> Some t | _ \<Rightarrow> None)"

definition the_eccentric :: "heap \<Rightarrow> ref \<Rightarrow> EccentricAnomaly option" where
  "the_eccentric h r = (case deref h r of Some (EccentricObject t) \<Rightarrow> Some t | _ \<Rightarrow> None)"

definition the_mean :: "heap \<Rightarrow> ref \<Rightarrow> MeanAnomaly option" where
  "the_mean h r = (case deref h r of Some (MeanObject t) \<Rightarrow> Some t | _ \<Rightarrow> None)"

text \<open>
  A method that reads the receiver and the orbit and computes a value: no statement of
  its body assigns a field or allocates an object. The result is \<open>None\<close> when a
  reference is not to an object of the expected class; such calls are outside the model.
\<close>

definition reading ::
    "(heap \<Rightarrow> ref \<Rightarrow> 'r option) \<Rightarrow> ('r \<Rightarrow> KeplerianOrbit \<Rightarrow> 'a) \<Rightarrow> heap \<Rightarrow> ref \<Rightarrow> ref
       \<Rightarrow> ('a \<times> heap) option" where
  "reading the_receiver body h this orbit =
     (case (the_receiver h this, the_orbit h orbit) of
        (Some t, Some ob) \<Rightarrow> Some (body t ob, h)
      | _ \<Rightarrow> None)"

text \<open>A method whose last statement is \<open>return new C(angle)\<close>.\<close>

definition constructing ::
    "(heap \<Rightarrow> ref \<Rightarrow> 'r option) \<Rightarrow> ('r \<Rightarrow> KeplerianOrbit \<Rightarrow> object) \<Rightarrow> heap \<Rightarrow> ref \<Rightarrow> ref
       \<Rightarrow> (ref \<times> heap) option" where
  "constructing the_receiver body h this orbit =
     (case (the_receiver h this, the_orbit h orbit) of
        (Some t, Some ob) \<Rightarrow> Some (new h (body t ob))
      | _ \<Rightarrow> None)"

text \<open>A method of the form \<open>return this.first(orbit).second(orbit)\<close>.\<close>

definition chained ::
    "(heap \<Rightarrow> ref \<Rightarrow> ref \<Rightarrow> (ref \<times> heap) option) \<Rightarrow> (heap \<Rightarrow> ref \<Rightarrow> ref \<Rightarrow> ('a \<times> heap) option)
       \<Rightarrow> heap \<Rightarrow> ref \<Rightarrow> ref \<Rightarrow> ('a \<times> heap) option" where
  "chained first second h this orbit =
     (case first h this orbit of
        None \<Rightarrow> None
      | Some (r, h') \<Rightarrow> second h' r orbit)"

subsection \<open>The methods of the anomaly classes on the heap\<close>

definition at_TrueAnomaly_radius :: "heap \<Rightarrow> ref \<Rightarrow> ref \<Rightarrow> (number \<times> heap) option" where
  "at_TrueAnomaly_radius = reading the_true TrueAnomaly_radius"

definition at_TrueAnomaly_point :: "heap \<Rightarrow> ref \<Rightarrow> ref \<Rightarrow> (point \<times> heap) option" where
  "at_TrueAnomaly_point = reading the_true TrueAnomaly_point"

definition at_TrueAnomaly_point2d :: "heap \<Rightarrow> ref \<Rightarrow> ref \<Rightarrow> (point \<times> heap) option" where
  "at_TrueAnomaly_point2d = reading the_true TrueAnomaly_point2d"

definition at_TrueAnomaly_eccentric_anomaly :: "heap \<Rightarrow> ref \<Rightarrow> ref \<Rightarrow> (ref \<times> heap) option" where
  "at_TrueAnomaly_eccentric_anomaly =
     constructing the_true (\<lambda>t ob. EccentricObject (TrueAnomaly_eccentric_anomaly t ob))"

definition at_EccentricAnomaly_radius ::
    "heap \<Rightarrow> ref \<Rightarrow> ref \<Rightarrow> ((error + number) \<times> heap) option" where
  "at_EccentricAnomaly_radius = reading the_eccentric EccentricAnomaly_radius"

definition at_EccentricAnomaly_point :: "heap \<Rightarrow> ref \<Rightarrow> ref \<Rightarrow> (point \<times> heap) option" where
  "at_EccentricAnomaly_point = reading the_eccentric EccentricAnomaly_point"

definition at_EccentricAnomaly_point2d :: "heap \<Rightarrow> ref \<Rightarrow> ref \<Rightarrow> (point \<times> heap) option" where
  "at_EccentricAnomaly_point2d = reading the_eccentric EccentricAnomaly_point2d"

definition at_EccentricAnomaly_true_anomaly :: "heap \<Rightarrow> ref \<Rightarrow> ref \<Rightarrow> (ref \<times> heap) option" where
  "at_EccentricAnomaly_true_anomaly =
     constructing the_eccentric (\<lambda>t ob. TrueObject (EccentricAnomaly_true_anomaly t ob))"

definition at_EccentricAnomaly_mean_anomaly :: "heap \<Rightarrow> ref \<Rightarrow> ref \<Rightarrow> (ref \<times> heap) option" where
  "at_EccentricAnomaly_mean_anomaly =
     constructing the_eccentric (\<lambda>t ob. MeanObject (EccentricAnomaly_mean_anomaly t ob))"

definition at_TrueAnomaly_mean_anomaly :: "heap \<Rightarrow> ref \<Rightarrow> ref \<Rightarrow> (ref \<times> heap) option" where
  "at_TrueAnomaly_mean_anomaly =
     chained at_TrueAnomaly_eccentric_anomaly at_EccentricAnomaly_mean_anomaly"

definition at_MeanAnomaly_eccentric_anomaly :: "heap \<Rightarrow> ref \<Rightarrow> ref \<Rightarrow> (ref \<times> heap) option" where
  "at_MeanAnomaly_eccentric_anomaly =
     constructing the_mean (\<lambda>t ob. EccentricObject (MeanAnomaly_eccentric_anomaly t ob))"

definition at_MeanAnomaly_true_anomaly :: "heap \<Rightarrow> ref \<Rightarrow> ref \<Rightarrow> (ref \<times> heap) option" where
  "at_MeanAnomaly_true_anomaly =
     chained at_MeanAnomaly_eccentric_anomaly at_EccentricAnomaly_true_anomaly"

definition at_MeanAnomaly_point :: "heap \<Rightarrow> ref \<Rightarrow> ref \<Rightarrow> (point \<times> heap) option" where
  "at_MeanAnomaly_point =
     chained at_MeanAnomaly_eccentric_anomaly at_EccentricAnomaly_point"

definition at_MeanAnomaly_point2d :: "heap \<Rightarrow> ref \<Rightarrow> ref \<Rightarrow> (point \<times> heap) option" where
  "at_MeanAnomaly_point2d =
     chained at_MeanAnomaly_eccentric_anomaly at_EccentricAnomaly_point2d"

definition at_radius_at_mean_anomaly :: "heap \<Rightarrow> ref \<Rightarrow> ref \<Rightarrow> (js_value \<times> heap) option" where
  "at_radius_at_mean_anomaly h this orbit =
     (case chained at_MeanAnomaly_true_anomaly at_TrueAnomaly_radius h this orbit of
        None \<Rightarrow> None
      | Some (dropped, h') \<Rightarrow> Some (Undefined, h'))"

text \<open>
  \<open>set_degrees\<close>, the same in the three classes, is the one method that assigns a
  field of the receiver; it returns \<open>this\<close>.
\<close>

definition at_set_degrees :: "heap \<Rightarrow> ref \<Rightarrow> number \<Rightarrow> (ref \<times> heap) option" where
  "at_set_degrees h this angle =
     (let radians = angle * (Math_PI / Fin 180)
      in case deref h this of
           Some (TrueObject t) \<Rightarrow> Some (this, h[this := TrueObject (TrueAnomaly radians)])
         | Some (EccentricObject t) \<Rightarrow>
             Some (this, h[this := EccentricObject (EccentricAnomaly radians)])
         | Some (MeanObject t) \<Rightarrow> Some (this, h[this := MeanObject (MeanAnomaly radians)])
         | _ \<Rightarrow> None)"

subsection \<open>Calling a method by name\<close>

datatype anomaly_method =
    Radius | Point | Point2d | Eccentric_anomaly | True_anomaly | Mean_anomaly
  | Radius_at_mean_anomaly

datatype orbit_method =
    Semiminor_axis | Focal_point | Periapsis | Apoapsis | Rotate_point point | Is_clockwise

datatype result =
    Number_result number
  | Point_result point
  | Bool_result bool
  | Ref_result ref
  | Undefined_result
  | Thrown error

definition returning :: "('a \<Rightarrow> result) \<Rightarrow> ('a \<times> heap) option \<Rightarrow> (result \<times> heap) option" where
  "returning wrap res = (case res of None \<Rightarrow> None | Some (v, h') \<Rightarrow> Some (wrap v, h'))"

definition not_a_function :: "heap \<Rightarrow> (result \<times> heap) option" where
  "not_a_function h = Some (Thrown (TypeError ''not a function''), h)"

text \<open>
  A call \<open>this.m(orbit)\<close> on an anomaly object runs the method \<open>m\<close> of the class of
  \<open>this\<close>; a name the class does not declare is not a function, and calling it throws.
\<close>

definition call :: "heap \<Rightarrow> ref \<Rightarrow> anomaly_method \<Rightarrow> ref \<Rightarrow> (result \<times> heap) option" where
  "call h this m orbit =
     (case deref h this of
        Some (TrueObject t) \<Rightarrow>
          (case m of
             Radius \<Rightarrow> returning Number_result (at_TrueAnomaly_radius h this orbit)
           | Point \<Rightarrow> returning Point_result (at_TrueAnomaly_point h this orbit)
           | Point2d \<Rightarrow> returning Point_result (at_TrueAnomaly_point2d h this orbit)
           | Eccentric_anomaly \<Rightarrow>
               returning Ref_result (at_TrueAnomaly_eccentric_anomaly h this orbit)
           | Mean_anomaly \<Rightarrow> returning Ref_result (at_TrueAnomaly_mean_anomaly h this orbit)
           | _ \<Rightarrow> not_a_function h)
      | Some (EccentricObject t) \<Rightarrow>
          (case m of
             Radius \<Rightarrow>
               returning (\<lambda>v. case v of Inl e \<Rightarrow> Thrown e | Inr n \<Rightarrow> Number_result n)
                 (at_EccentricAnomaly_radius h this orbit)
           | Point \<Rightarrow> returning Point_result (at_EccentricAnomaly_point h this orbit)
           | Point2d \<Rightarrow> returning Point_result (at_EccentricAnomaly_point2d h this orbit)
           | True_anomaly \<Rightarrow>
               returning Ref_result (at_EccentricAnomaly_true_anomaly h this orbit)
           | Mean_anomaly \<Rightarrow>
               returning Ref_result (at_EccentricAnomaly_mean_anomaly h this orbit)
           | _ \<Rightarrow> not_a_function h)
      | Some (MeanObject t) \<Rightarrow>
          (case m of
             Radius_at_mean_anomaly \<Rightarrow>
               returning (\<lambda>v. case v of Undefined \<Rightarrow> Undefined_result | Number n \<Rightarrow> Number_result n)
                 (at_radius_at_mean_anomaly h this orbit)
           | Point \<Rightarrow> returning Point_result (at_MeanAnomaly_point h this orbit)
           | Point2d \<Rightarrow> returning Point_result (at_MeanAnomaly_point2d h this orbit)
           | True_anomaly \<Rightarrow> returning Ref_result (at_MeanAnomaly_true_anomaly h this orbit)
           | Eccentric_anomaly \<Rightarrow>
               returning Ref_result (at_MeanAnomaly_eccentric_anomaly h this orbit)
           | _ \<Rightarrow> not_a_function h)
      | _ \<Rightarrow> None)"

text \<open>The methods of an orbit object: each reads the fields of \<open>this\<close> and computes.\<close>

definition call_orbit :: "heap \<Rightarrow> ref \<Rightarrow> orbit_method \<Rightarrow> (result \<times> heap) option" where
  "call_orbit h this m =
     (case the_orbit h this of
        None \<Rightarrow> None
      | Some ob \<Rightarrow>
          Some (case m of
                  Semiminor_axis \<Rightarrow> Number_result (semiminor_axis ob)
                | Focal_point \<Rightarrow> Number_result (focal_point ob)
                | Periapsis \<Rightarrow> Number_result (periapsis ob)
                | Apoapsis \<Rightarrow> Number_result (apoapsis ob)
                | Rotate_point p \<Rightarrow> Point_result (rotate_point ob p)
                | Is_clockwise \<Rightarrow> Bool_result (is_clockwise ob),
                h))"

text \<open>Every object of \<open>h\<close> is still there in \<open>h'\<close>, with the same fields.\<close>

definition unchanged :: "heap \<Rightarrow> heap \<Rightarrow> bool" where
  "unchanged h h' = (\<forall>r. r < length h \<longrightarrow> deref h' r = deref h r)"

text \<open>Which methods of which class are conversions to another anomaly.\<close>

fun conversion :: "object \<Rightarrow> anomaly_method \<Rightarrow> bool" where
  "conversion (TrueObject t) m = (m = Eccentric_anomaly \<or> m = Mean_anomaly)"
| "conversion (EccentricObject t) m = (m = True_anomaly \<or> m = Mean_anomaly)"
| "conversion (MeanObject t) m = (m = True_anomaly \<or> m = Eccentric_anomaly)"
| "conversion (OrbitObject ob) m = False"

text \<open>The objects of the three anomaly classes.\<close>

fun anomaly :: "object \<Rightarrow> bool" where
  "anomaly (OrbitObject ob) = False"
| "anomaly obj = True"

text \<open>The result is a reference, and the heap has the given object there.\<close>

definition returns_object :: "result \<Rightarrow> heap \<Rightarrow> object \<Rightarrow> bool" where
  "returns_object res h obj = (case res of Ref_result r \<Rightarrow> deref h r = Some obj | _ \<Rightarrow> False)"

section \<open>Arithmetic of numbers\<close>

declare eccentric_anomaly_loop.simps [simp del]

lemma Fin_minus [simp]: "Fin a - Fin b = Fin (a - b)"
  by (simp add: minus_number_def)

lemma NaN_absorbs [simp]:
  "NaN + a = NaN" "a + NaN = NaN" "NaN - a = NaN" "a - NaN = NaN"
  "NaN * a = NaN" "a * NaN = NaN" "NaN / a = NaN" "a / NaN = NaN"
  by (cases a; simp add: minus_number_def)+

lemma tolerance_eq: "tolerance = Fin (pi / 18000000)"
  by (simp add: tolerance_def Math_PI_def)

lemma spec_tolerance_eq: "spec_tolerance = tolerance"
  by (simp add: tolerance_eq spec_tolerance_def)

section \<open>The solver\<close>

lemma clamp_eq_spec_clamp:
  assumes "\<not> lt e (Fin 0)" "e = NaN \<longrightarrow> d = NaN"
  shows "clamp d (- e / Fin 2) (e / Fin 2) = spec_clamp (- (e / Fin 2)) (e / Fin 2) d"
  using assms
  by (cases e; cases d) (auto simp: clamp_def spec_clamp_def)

lemma loop_refines_amended:
  assumes "\<not> lt (eccentricity orbit) (Fin 0)" "i \<le> 10"
  shows "fst (eccentric_anomaly_loop this orbit i E) =
         amended_newton (10 - i) (eccentricity orbit) (MeanAnomaly_angle this) E"
  using assms
proof (induction this orbit i E rule: eccentric_anomaly_loop.induct)
  case (1 this orbit i E)
  show ?case
  proof (cases "i < 10")
    case False
    then show ?thesis using "1.prems"
      by (subst eccentric_anomaly_loop.simps) simp
  next
    case True
    then obtain n where n: "10 - i = Suc n" "10 - (i + 1) = n"
      by (metis Suc_diff_Suc Suc_eq_plus1 diff_diff_left plus_1_eq_Suc)
    let ?e = "eccentricity orbit"
    let ?M = "MeanAnomaly_angle this"
    let ?f = "E - ?e * Math_sin E - ?M"
    let ?d = "?f / (Fin 1 - ?e * Math_cos E)"
    have "?e = NaN \<longrightarrow> ?d = NaN" by simp
    then have c: "clamp ?d (- ?e / Fin 2) (?e / Fin 2) =
                  spec_clamp (- (?e / Fin 2)) (?e / Fin 2) ?d"
      using "1.prems"(1) by (rule clamp_eq_spec_clamp [rotated])
    have u: "E - clamp ?d (- ?e / Fin 2) (?e / Fin 2) = spec_update ?e ?M E"
      by (simp only: c spec_update_def spec_residual_def spec_derivative_def)
    show ?thesis
    proof (cases "lt (Math_abs ?f) tolerance")
      case conv: True
      then show ?thesis using True n u
        by (subst eccentric_anomaly_loop.simps)
           (simp add: spec_tolerance_eq spec_residual_def Let_def)
    next
      case nconv: False
      have "fst (eccentric_anomaly_loop this orbit (i + 1) (spec_update ?e ?M E)) =
            amended_newton n ?e ?M (spec_update ?e ?M E)"
        using "1.IH" [OF True refl refl nconv] "1.prems" True n u by simp
      then show ?thesis using True n u nconv
        by (subst eccentric_anomaly_loop.simps)
           (simp add: spec_tolerance_eq spec_residual_def Let_def)
    qed
  qed
qed

text \<open>One body of the loop on finite values, when the derivative is not zero.\<close>

lemma loop_body_continues:
  assumes "i < 10" "eccentricity orbit = Fin e" "MeanAnomaly_angle this = Fin M"
    and "1 - e * cos E \<noteq> 0"
    and "\<not> \<bar>E - e * sin E - M\<bar> < pi / 18000000"
  shows "eccentric_anomaly_loop this orbit i (Fin E) =
         eccentric_anomaly_loop this orbit (i + 1)
           (Fin (E - min (max ((E - e * sin E - M) / (1 - e * cos E)) (- e / 2)) (e / 2)))"
  using assms
  by (subst eccentric_anomaly_loop.simps)
     (simp add: Let_def tolerance_eq clamp_def Math_abs_def)

lemma loop_body_returns:
  assumes "i < 10" "eccentricity orbit = Fin e" "MeanAnomaly_angle this = Fin M"
    and "1 - e * cos E \<noteq> 0"
    and "\<bar>E - e * sin E - M\<bar> < pi / 18000000"
  shows "eccentric_anomaly_loop this orbit i (Fin E) =
         (Fin (E - min (max ((E - e * sin E - M) / (1 - e * cos E)) (- e / 2)) (e / 2)), i + 1)"
  using assms
  by (subst eccentric_anomaly_loop.simps)
     (simp add: Let_def tolerance_eq clamp_def Math_abs_def)

text \<open>Once the current value is \<open>NaN\<close> the loop runs to its end and returns \<open>NaN\<close>.\<close>

lemma loop_NaN:
  assumes "i \<le> 10"
  shows "eccentric_anomaly_loop this orbit i NaN = (NaN, 10)"
  using assms
proof (induction "10 - i" arbitrary: i)
  case 0
  then show ?case by (subst eccentric_anomaly_loop.simps) simp
next
  case (Suc n)
  then have "i < 10" "n = 10 - (i + 1)" "i + 1 \<le> 10" by auto
  then show ?case using Suc.hyps(1) [of "i + 1"]
    by (subst eccentric_anomaly_loop.simps) (simp add: Let_def Math_abs_def)
qed

subsection \<open>The eccentricity \<open>3e-7\<close> and the mean anomaly \<open>\<pi>/2\<close>\<close>

lemma pi_ge_three: "3 \<le> pi"
proof -
  have "sin (pi / 6) \<le> pi / 6" by (rule sin_x_le_x) simp
  then show ?thesis by (simp add: sin_30)
qed

lemma pi_less_four: "pi < 4"
  using pi_half_less_two by simp

lemma second_residual:
  fixes e :: real
  assumes e: "e = 3 / 10000000"
  defines "E \<equiv> pi / 2 + e / 2"
  shows "E - e * sin E - pi / 2 < 0" and "\<bar>E - e * sin E - pi / 2\<bar> < pi / 18000000"
    and "0 < 1 - e * cos E"
proof -
  have s: "sin E = cos (e / 2)" and c: "cos E = - sin (e / 2)"
    unfolding E_def by (simp_all add: sin_add cos_add)
  have "cos (pi / 3) < cos (e / 2)"
    using pi_ge_three by (intro cos_monotone_0_pi) (simp_all add: e)
  then have lo: "1 / 2 < cos (e / 2)" by (simp add: cos_60)
  have hi: "cos (e / 2) \<le> 1" by simp
  have f: "E - e * sin E - pi / 2 = e * (1 / 2 - cos (e / 2))"
    unfolding E_def s [unfolded E_def] by (simp add: algebra_simps)
  have epos: "0 < e" by (simp add: e)
  show neg: "E - e * sin E - pi / 2 < 0"
    unfolding f using lo epos by (simp add: mult_pos_neg)
  have "e * (1 / 2 - cos (e / 2)) \<ge> e * (1 / 2 - 1)"
    using hi epos by (intro mult_left_mono) auto
  then have "- (e / 2) \<le> E - e * sin E - pi / 2" unfolding f by simp
  moreover have "e / 2 < pi / 18000000" using pi_ge_three by (simp add: e)
  ultimately show "\<bar>E - e * sin E - pi / 2\<bar> < pi / 18000000" using neg by simp
  have "\<bar>sin (e / 2)\<bar> \<le> 1" by simp
  then have "\<bar>e * sin (e / 2)\<bar> \<le> e * 1"
    unfolding abs_mult using epos by (intro mult_mono) auto
  then have "- e \<le> e * sin (e / 2)" by simp
  moreover have "e < 1" by (simp add: e)
  ultimately have "0 < 1 + e * sin (e / 2)" by linarith
  then show "0 < 1 - e * cos E" unfolding c by simp
qed

lemma loop_count:
  assumes "i \<le> 10"
  shows "i \<le> snd (eccentric_anomaly_loop this orbit i E) \<and>
         snd (eccentric_anomaly_loop this orbit i E) \<le> 10"
  using assms
proof (induction this orbit i E rule: eccentric_anomaly_loop.induct)
  case (1 this orbit i E)
  show ?case
  proof (cases "i < 10")
    case False
    then show ?thesis using "1.prems"
      by (subst (1 2) eccentric_anomaly_loop.simps) simp
  next
    case True
    let ?f = "E - eccentricity orbit * Math_sin E - MeanAnomaly_angle this"
    show ?thesis
    proof (cases "lt (Math_abs ?f) tolerance")
      case conv: True
      then show ?thesis using True
        by (subst (1 2) eccentric_anomaly_loop.simps) (simp add: Let_def)
    next
      case nconv: False
      from "1.IH" [OF True refl refl nconv] True nconv show ?thesis
        by (subst (1 2) eccentric_anomaly_loop.simps) (simp add: Let_def)
    qed
  qed
qed

lemma loop_circular:
  assumes "eccentricity orbit = Fin 0"
  shows "eccentric_anomaly_loop (MeanAnomaly (Fin M)) orbit 0 (Fin M) = (Fin M, 1)"
  using assms
  by (subst eccentric_anomaly_loop.simps) (simp add: tolerance_eq clamp_def Math_abs_def)

lemma eccentric_anomaly_circular:
  assumes "eccentricity orbit = Fin 0"
  shows "MeanAnomaly_eccentric_anomaly (MeanAnomaly (Fin M)) orbit = EccentricAnomaly (Fin M)"
  by (simp add: MeanAnomaly_eccentric_anomaly_def loop_circular [OF assms])

text \<open>
  With eccentricity \<open>3e-7\<close> and mean anomaly \<open>\<pi>/2\<close> the first body finds the residual
  \<open>-e\<close>, not below the tolerance, and steps by the clamp bound to \<open>\<pi>/2 + e/2\<close>; the
  second body finds a residual below the tolerance, steps once more and returns.
\<close>

lemma two_bodies:
  fixes e :: real
  assumes e: "e = 3 / 10000000"
    and ecc: "eccentricity orbit = Fin e"
  defines "E \<equiv> pi / 2 + e / 2"
  defines "step \<equiv> min (max ((E - e * sin E - pi / 2) / (1 - e * cos E)) (- e / 2)) (e / 2)"
  shows "eccentric_anomaly_loop (MeanAnomaly (Fin (pi / 2))) orbit 0 (Fin (pi / 2)) =
           (Fin (E - step), 2)"
    and "step < 0"
proof -
  note r = second_residual [OF e, folded E_def]
  have first: "eccentric_anomaly_loop (MeanAnomaly (Fin (pi / 2))) orbit 0 (Fin (pi / 2)) =
        eccentric_anomaly_loop (MeanAnomaly (Fin (pi / 2))) orbit (0 + 1)
          (Fin (pi / 2 - min (max ((pi / 2 - e * sin (pi / 2) - pi / 2) / (1 - e * cos (pi / 2)))
                                 (- e / 2)) (e / 2)))"
  proof (rule loop_body_continues [OF _ ecc])
    show "\<not> \<bar>pi / 2 - e * sin (pi / 2) - pi / 2\<bar> < pi / 18000000"
      using pi_less_four by (simp add: e)
  qed simp_all
  have "pi / 2 - min (max ((pi / 2 - e * sin (pi / 2) - pi / 2) / (1 - e * cos (pi / 2)))
                          (- e / 2)) (e / 2) = E"
    by (simp add: E_def e)
  then have first': "eccentric_anomaly_loop (MeanAnomaly (Fin (pi / 2))) orbit 0 (Fin (pi / 2)) =
        eccentric_anomaly_loop (MeanAnomaly (Fin (pi / 2))) orbit 1 (Fin E)"
    using first by simp
  have "eccentric_anomaly_loop (MeanAnomaly (Fin (pi / 2))) orbit 1 (Fin E) =
          (Fin (E - step), 1 + 1)"
    unfolding step_def
  proof (rule loop_body_returns [OF _ ecc])
    show "1 - e * cos E \<noteq> 0" using r(3) by simp
    show "\<bar>E - e * sin E - pi / 2\<bar> < pi / 18000000" by (rule r(2))
  qed simp_all
  with first' show "eccentric_anomaly_loop (MeanAnomaly (Fin (pi / 2))) orbit 0 (Fin (pi / 2)) =
           (Fin (E - step), 2)"
    by simp
  have "(E - e * sin E - pi / 2) / (1 - e * cos E) < 0"
    using r(1) r(3) by (simp add: divide_neg_pos)
  moreover have "- e / 2 < 0" by (simp add: e)
  ultimately have "max ((E - e * sin E - pi / 2) / (1 - e * cos E)) (- e / 2) < 0" by simp
  then show "step < 0" unfolding step_def by (simp add: min_less_iff_disj)
qed

lemma spec_returns_first_update:
  fixes e :: real
  assumes e: "e = 3 / 10000000"
  shows "spec_eccentric_anomaly (Fin e) (Fin (pi / 2)) = Fin (pi / 2 + e / 2)"
proof -
  note r = second_residual [OF e]
  have u: "spec_update (Fin e) (Fin (pi / 2)) (Fin (pi / 2)) = Fin (pi / 2 + e / 2)"
    by (simp add: spec_update_def spec_residual_def spec_derivative_def spec_clamp_def e)
  have t: "lt (Math_abs (spec_residual (Fin e) (Fin (pi / 2)) (Fin (pi / 2 + e / 2))))
              spec_tolerance"
    using r(2) by (simp add: spec_residual_def spec_tolerance_eq tolerance_eq Math_abs_def)
  have "spec_newton (Suc 9) (Fin e) (Fin (pi / 2)) (Fin (pi / 2)) = Fin (pi / 2 + e / 2)"
    unfolding spec_newton.simps u using t by simp
  then show ?thesis by (simp add: spec_eccentric_anomaly_def)
qed

section \<open>The claims about the solver, the constructor and the radius methods\<close>

text \<open>
  C1, as stated: each iteration clamps the step, updates \<open>E\<close> and then returns the
  current \<open>E\<close> if \<open>|f(E)|\<close> is below the tolerance. The code compares the residual
  it computed before the update. With eccentricity \<open>3e-7\<close> and mean anomaly \<open>\<pi>/2\<close>
  the iteration as stated returns \<open>\<pi>/2 + e/2\<close> after one update, whose residual is
  below the tolerance; the code, having found the residual \<open>-e\<close> before that update,
  runs a second body and returns a larger value.
\<close>

theorem eccentric_anomaly_not_update_then_test:
  "\<not> lt (eccentricity (new_KeplerianOrbit (Fin 1) (Fin (3 / 10000000)) (Fin 0) False)) (Fin 0) \<and>
   MeanAnomaly_eccentric_anomaly (MeanAnomaly (Fin (pi / 2)))
       (new_KeplerianOrbit (Fin 1) (Fin (3 / 10000000)) (Fin 0) False) \<noteq>
     EccentricAnomaly (spec_eccentric_anomaly (Fin (3 / 10000000)) (Fin (pi / 2)))"
proof -
  let ?O = "new_KeplerianOrbit (Fin 1) (Fin (3 / 10000000)) (Fin 0) False"
  have ecc: "eccentricity ?O = Fin (3 / 10000000)"
    by (simp add: new_KeplerianOrbit_def Math_abs_def)
  note code = two_bodies [OF refl ecc]
  note spec = spec_returns_first_update [OF refl]
  have "MeanAnomaly_eccentric_anomaly (MeanAnomaly (Fin (pi / 2))) ?O \<noteq>
        EccentricAnomaly (spec_eccentric_anomaly (Fin (3 / 10000000)) (Fin (pi / 2)))"
    unfolding MeanAnomaly_eccentric_anomaly_def MeanAnomaly.sel code(1) spec
    using code(2) by simp
  then show ?thesis by (simp add: ecc)
qed

text \<open>
  C1, amended. For an orbit whose eccentricity \<open>e\<close> is not negative and a mean anomaly
  \<open>M\<close>, \<open>eccentric_anomaly(orbit)\<close> starts at \<open>M\<close> and runs at most ten
  iterations; an iteration computes the residual and the derivative, clamps their quotient
  to \<open>[-e/2, e/2]\<close>, subtracts it from \<open>E\<close>, and returns the updated \<open>E\<close> if the
  residual it computed, from \<open>E\<close> before the update, is below \<open>0.00001\<close> degrees in
  absolute value; after ten iterations the last \<open>E\<close> is returned. The result is a plain
  eccentric anomaly: there is no error and no flag.
\<close>

theorem eccentric_anomaly_tests_residual_before_update:
  assumes "\<not> lt (eccentricity orbit) (Fin 0)"
  shows "MeanAnomaly_eccentric_anomaly (MeanAnomaly M) orbit =
           EccentricAnomaly (amended_eccentric_anomaly (eccentricity orbit) M) \<and>
         snd (eccentric_anomaly_loop (MeanAnomaly M) orbit 0 M) \<le> 10"
  using loop_refines_amended [OF assms, of 0 "MeanAnomaly M" M]
    loop_count [of 0 "MeanAnomaly M" orbit M]
  by (simp add: MeanAnomaly_eccentric_anomaly_def amended_eccentric_anomaly_def)

theorem eccentric_anomaly_tests_residual_before_update_witness:
  "\<not> lt (eccentricity (new_KeplerianOrbit (Fin 1) (Fin (3 / 10000000)) (Fin 0) False)) (Fin 0) \<and>
   MeanAnomaly_eccentric_anomaly (MeanAnomaly (Fin (pi / 2)))
       (new_KeplerianOrbit (Fin 1) (Fin (3 / 10000000)) (Fin 0) False) =
     EccentricAnomaly (amended_eccentric_anomaly (Fin (3 / 10000000)) (Fin (pi / 2))) \<and>
   snd (eccentric_anomaly_loop (MeanAnomaly (Fin (pi / 2)))
          (new_KeplerianOrbit (Fin 1) (Fin (3 / 10000000)) (Fin 0) False) 0 (Fin (pi / 2))) = 2 \<and>
   amended_eccentric_anomaly (Fin (3 / 10000000)) (Fin (pi / 2)) \<noteq>
     spec_eccentric_anomaly (Fin (3 / 10000000)) (Fin (pi / 2))"
proof -
  let ?O = "new_KeplerianOrbit (Fin 1) (Fin (3 / 10000000)) (Fin 0) False"
  have ecc: "eccentricity ?O = Fin (3 / 10000000)"
    by (simp add: new_KeplerianOrbit_def Math_abs_def)
  have h: "\<not> lt (eccentricity ?O) (Fin 0)"
    by (simp add: ecc)
  note code = two_bodies [OF refl ecc]
  note spec = spec_returns_first_update [OF refl]
  have a: "EccentricAnomaly (amended_eccentric_anomaly (Fin (3 / 10000000)) (Fin (pi / 2))) =
           MeanAnomaly_eccentric_anomaly (MeanAnomaly (Fin (pi / 2))) ?O"
    using eccentric_anomaly_tests_residual_before_update [OF h, of "Fin (pi / 2)"]
    by (simp add: ecc)
  have d: "amended_eccentric_anomaly (Fin (3 / 10000000)) (Fin (pi / 2)) \<noteq>
           spec_eccentric_anomaly (Fin (3 / 10000000)) (Fin (pi / 2))"
    using a code(2) unfolding MeanAnomaly_eccentric_anomaly_def MeanAnomaly.sel code(1) spec
    by simp
  show ?thesis
    using h a d code(1) by (simp add: ecc)
qed

text \<open>
  C10, as stated: for every mean anomaly \<open>M\<close> on an orbit with eccentricity \<open>0\<close> the
  result has angle \<open>M\<close> and the loop returns in its first body. For \<open>M = Infinity\<close>
  the residual \<open>M - 0 sin M - M\<close> is \<open>NaN\<close>, no comparison with the tolerance holds,
  and the loop runs its ten bodies and returns \<open>NaN\<close>.
\<close>

theorem circular_orbit_infinite_mean_anomaly:
  "eccentricity (new_KeplerianOrbit (Fin 1) (Fin 0) (Fin 0) False) = Fin 0 \<and>
   eccentric_anomaly_loop (MeanAnomaly PInf)
       (new_KeplerianOrbit (Fin 1) (Fin 0) (Fin 0) False) 0 PInf = (NaN, 10) \<and>
   MeanAnomaly_eccentric_anomaly (MeanAnomaly PInf)
       (new_KeplerianOrbit (Fin 1) (Fin 0) (Fin 0) False) = EccentricAnomaly NaN \<and>
   EccentricAnomaly NaN \<noteq> EccentricAnomaly PInf"
proof -
  let ?O = "new_KeplerianOrbit (Fin 1) (Fin 0) (Fin 0) False"
  have ecc: "eccentricity ?O = Fin 0"
    by (simp add: new_KeplerianOrbit_def Math_abs_def)
  have "eccentric_anomaly_loop (MeanAnomaly PInf) ?O 0 PInf =
        eccentric_anomaly_loop (MeanAnomaly PInf) ?O (0 + 1) NaN"
    by (subst eccentric_anomaly_loop.simps)
       (simp add: ecc Let_def Math_abs_def clamp_def)
  then have "eccentric_anomaly_loop (MeanAnomaly PInf) ?O 0 PInf = (NaN, 10)"
    by (simp add: loop_NaN)
  then show ?thesis
    by (simp add: ecc MeanAnomaly_eccentric_anomaly_def)
qed


text \<open>
  C10, amended. For an orbit with eccentricity exactly \<open>0\<close> and a mean anomaly with a finite
  angle \<open>M\<close>, \<open>eccentric_anomaly(orbit)\<close> returns an eccentric anomaly with angle
  \<open>M\<close>, and returns in the first pass through the loop body: the residual
  \<open>M - 0 sin M - M\<close> is \<open>0\<close>, which is below the tolerance, and the clamp bounds
  \<open>-0/2\<close> and \<open>0/2\<close> turn every step into \<open>0\<close>.
\<close>

theorem circular_orbit_returns_in_first_iteration:
  assumes "eccentricity orbit = Fin 0"
  shows "MeanAnomaly_eccentric_anomaly (MeanAnomaly (Fin M)) orbit = EccentricAnomaly (Fin M) \<and>
         eccentric_anomaly_loop (MeanAnomaly (Fin M)) orbit 0 (Fin M) = (Fin M, 1) \<and>
         Fin M - eccentricity orbit * Math_sin (Fin M) - Fin M = Fin 0 \<and>
         lt (Math_abs (Fin 0)) tolerance \<and>
         (\<forall>d. d \<noteq> NaN \<longrightarrow>
              clamp d (- eccentricity orbit / Fin 2) (eccentricity orbit / Fin 2) = Fin 0)"
proof -
  have "clamp d (Fin 0) (Fin 0) = Fin 0" if "d \<noteq> NaN" for d
    using that by (cases d) (simp_all add: clamp_def)
  then show ?thesis
    using assms loop_circular [OF assms, of M] eccentric_anomaly_circular [OF assms, of M]
    by (simp add: tolerance_eq Math_abs_def)
qed

theorem circular_orbit_returns_in_first_iteration_witness:
  "eccentricity (new_KeplerianOrbit (Fin 2) (Fin 0) (Fin 1) True) = Fin 0 \<and>
   MeanAnomaly_eccentric_anomaly (MeanAnomaly (Fin 3))
       (new_KeplerianOrbit (Fin 2) (Fin 0) (Fin 1) True) = EccentricAnomaly (Fin 3) \<and>
   eccentric_anomaly_loop (MeanAnomaly (Fin 3))
       (new_KeplerianOrbit (Fin 2) (Fin 0) (Fin 1) True) 0 (Fin 3) = (Fin 3, 1) \<and>
   clamp PInf (- eccentricity (new_KeplerianOrbit (Fin 2) (Fin 0) (Fin 1) True) / Fin 2)
       (eccentricity (new_KeplerianOrbit (Fin 2) (Fin 0) (Fin 1) True) / Fin 2) = Fin 0"
proof -
  let ?O = "new_KeplerianOrbit (Fin 2) (Fin 0) (Fin 1) True"
  have e: "eccentricity ?O = Fin 0"
    by (simp add: new_KeplerianOrbit_def Math_abs_def)
  show ?thesis
    using e circular_orbit_returns_in_first_iteration [OF e, of 3] by simp
qed

text \<open>
  C8. The constructor stores the absolute values of its \<open>semimajor_axis\<close> and
  \<open>eccentricity\<close> arguments and stores \<open>argument_of_periapsis\<close> and \<open>clockwise\<close>
  as given. It is a total function with no error among its results: a negative argument
  gives the orbit its positive counterpart gives, and an eccentricity of \<open>1\<close> or more is
  stored as it is.
\<close>

theorem constructor_stores_absolute_values:
  "semimajor_axis (new_KeplerianOrbit a e w c) = Math_abs a \<and>
   eccentricity (new_KeplerianOrbit a e w c) = Math_abs e \<and>
   argument_of_periapsis (new_KeplerianOrbit a e w c) = w \<and>
   clockwise (new_KeplerianOrbit a e w c) = c \<and>
   semimajor_axis (new_KeplerianOrbit (Fin x) (Fin y) w c) = Fin \<bar>x\<bar> \<and>
   eccentricity (new_KeplerianOrbit (Fin x) (Fin y) w c) = Fin \<bar>y\<bar> \<and>
   new_KeplerianOrbit (- a) (- e) w c = new_KeplerianOrbit a e w c \<and>
   eccentricity (new_KeplerianOrbit a (Fin (1 + \<bar>y\<bar>)) w c) = Fin (1 + \<bar>y\<bar>)"
proof -
  have "Math_abs (- b) = Math_abs b" for b
    by (cases b) (simp_all add: Math_abs_def)
  then show ?thesis
    by (simp add: new_KeplerianOrbit_def Math_abs_def)
qed

text \<open>
  C3. \<open>EccentricAnomaly.radius(orbit)\<close> is to return the Euclidean norm of
  \<open>point(orbit)\<close> and never fail. The method calls \<open>this.position(orbit)\<close>, a name the
  class does not declare, so for every receiver and every orbit the call throws a
  \<open>TypeError\<close> and returns no number.
\<close>

theorem EccentricAnomaly_radius_throws:
  "EccentricAnomaly_radius this orbit = Inl (TypeError ''this.position is not a function'') \<and>
   EccentricAnomaly_radius (EccentricAnomaly (Fin 0))
       (new_KeplerianOrbit (Fin 1) (Fin 0) (Fin 0) False) \<noteq> Inr (Fin 1) \<and>
   EccentricAnomaly_point (EccentricAnomaly (Fin 0))
       (new_KeplerianOrbit (Fin 1) (Fin 0) (Fin 0) False) = \<lparr>px = Fin 1, py = Fin 0\<rparr>"
  by (simp add: EccentricAnomaly_radius_def EccentricAnomaly_point_method_def
      EccentricAnomaly_point_def new_KeplerianOrbit_def Math_abs_def focal_point_def
      semiminor_axis_def)

text \<open>
  C4. \<open>MeanAnomaly.radius_at_mean_anomaly(orbit)\<close> is to return the radius
  \<open>true_anomaly(orbit).radius(orbit)\<close>. The method computes that value and has no
  \<open>return\<close>, so every call gives \<open>undefined\<close>; on the circular orbit of radius \<open>1\<close>
  the radius it drops is \<open>1\<close>.
\<close>

theorem radius_at_mean_anomaly_returns_undefined:
  "radius_at_mean_anomaly this orbit = Undefined \<and>
   TrueAnomaly_radius
       (MeanAnomaly_true_anomaly (MeanAnomaly (Fin 0))
          (new_KeplerianOrbit (Fin 1) (Fin 0) (Fin 0) False))
       (new_KeplerianOrbit (Fin 1) (Fin 0) (Fin 0) False) = Fin 1 \<and>
   radius_at_mean_anomaly (MeanAnomaly (Fin 0))
       (new_KeplerianOrbit (Fin 1) (Fin 0) (Fin 0) False) \<noteq> Number (Fin 1)"
proof -
  let ?O = "new_KeplerianOrbit (Fin 1) (Fin 0) (Fin 0) False"
  have e: "eccentricity ?O = Fin 0"
    by (simp add: new_KeplerianOrbit_def Math_abs_def)
  have "TrueAnomaly_radius (MeanAnomaly_true_anomaly (MeanAnomaly (Fin 0)) ?O) ?O = Fin 1"
    unfolding MeanAnomaly_true_anomaly_def eccentric_anomaly_circular [OF e]
    by (simp add: TrueAnomaly_radius_def EccentricAnomaly_true_anomaly_def
        EccentricAnomaly_point_def new_KeplerianOrbit_def Math_abs_def focal_point_def
        semiminor_axis_def atan2_def)
  then show ?thesis
    by (simp add: radius_at_mean_anomaly_def)
qed

text \<open>
  C6. \<open>rotate_point\<close> replaces \<open>y\<close> by \<open>-y\<close> exactly when the orbit is clockwise
  and then returns \<open>(x cos \<omega> + y sin \<omega>, y cos \<omega> - x sin \<omega>)\<close> for \<open>\<omega>\<close> the argument
  of periapsis. With \<open>\<omega> = 0\<close> the point \<open>(1, 1)\<close> is sent to a point with \<open>y = -1\<close>
  by a clockwise orbit and to a point with \<open>y = 1\<close> by a counterclockwise one.
\<close>

theorem rotate_point_formula:
  "rotate_point
       \<lparr>semimajor_axis = a, eccentricity = e, argument_of_periapsis = Fin w, clockwise = c\<rparr>
       \<lparr>px = Fin x, py = Fin y\<rparr> =
     \<lparr>px = Fin (x * cos w + (if c then - y else y) * sin w),
      py = Fin ((if c then - y else y) * cos w - x * sin w)\<rparr> \<and>
   py (rotate_point
         \<lparr>semimajor_axis = a, eccentricity = e, argument_of_periapsis = Fin 0, clockwise = True\<rparr>
         \<lparr>px = Fin 1, py = Fin 1\<rparr>) = Fin (- 1) \<and>
   py (rotate_point
         \<lparr>semimajor_axis = a, eccentricity = e, argument_of_periapsis = Fin 0, clockwise = False\<rparr>
         \<lparr>px = Fin 1, py = Fin 1\<rparr>) = Fin 1"
  by (simp add: rotate_point_def Let_def)

section \<open>The claims about round trips, circular orbits and apsides\<close>

text \<open>
  C2. The round trip \<open>MeanAnomaly(M).true_anomaly(orbit).mean_anomaly(orbit)\<close> is to
  give \<open>M\<close> back within the tolerance for semimajor axes in \<open>(0, 1e6]\<close>,
  eccentricities in \<open>[0, 0.9]\<close>, arguments of periapsis in \<open>[-\<pi>, \<pi>]\<close> and \<open>M\<close> in
  \<open>[-\<pi>, \<pi>]\<close>. On the circular orbit of radius \<open>1\<close> with argument of periapsis
  \<open>\<pi>/2\<close> the round trip of \<open>M = 0\<close> gives \<open>\<pi>/2\<close>, which is not within the
  tolerance of \<open>0\<close>: \<open>TrueAnomaly.point\<close> adds the argument of periapsis to the
  angle, and \<open>TrueAnomaly.eccentric_anomaly\<close> takes the angle of that point.
\<close>

theorem round_trip_shifted_by_argument_of_periapsis:
  "MeanAnomaly_angle
     (TrueAnomaly_mean_anomaly
        (MeanAnomaly_true_anomaly (MeanAnomaly (Fin 0))
           (new_KeplerianOrbit (Fin 1) (Fin 0) (Fin (pi / 2)) False))
        (new_KeplerianOrbit (Fin 1) (Fin 0) (Fin (pi / 2)) False)) = Fin (pi / 2) \<and>
   \<not> lt (Math_abs (Fin (pi / 2) - Fin 0)) tolerance"
proof -
  let ?O = "new_KeplerianOrbit (Fin 1) (Fin 0) (Fin (pi / 2)) False"
  have e: "eccentricity ?O = Fin 0"
    by (simp add: new_KeplerianOrbit_def Math_abs_def)
  have T: "MeanAnomaly_true_anomaly (MeanAnomaly (Fin 0)) ?O = TrueAnomaly (Fin 0)"
    unfolding MeanAnomaly_true_anomaly_def eccentric_anomaly_circular [OF e]
    by (simp add: EccentricAnomaly_true_anomaly_def EccentricAnomaly_point_def
        new_KeplerianOrbit_def Math_abs_def focal_point_def semiminor_axis_def atan2_def)
  have "MeanAnomaly_angle (TrueAnomaly_mean_anomaly (TrueAnomaly (Fin 0)) ?O) = Fin (pi / 2)"
    by (simp add: TrueAnomaly_mean_anomaly_def TrueAnomaly_eccentric_anomaly_def
        TrueAnomaly_point_def TrueAnomaly_radius_def EccentricAnomaly_mean_anomaly_def
        new_KeplerianOrbit_def Math_abs_def focal_point_def semiminor_axis_def atan2_def)
  then show ?thesis
    unfolding T by (simp add: tolerance_eq Math_abs_def)
qed






text \<open>
  The ordering of the apsides does not depend on exact arithmetic: it holds for every
  rounding \<open>r\<close> of the difference, the sum and the products that is monotone and
  leaves \<open>0\<close>, \<open>1\<close> and the semimajor axis as they are.
\<close>

lemma apsides_under_rounding:
  fixes a e :: real
  assumes "mono r" "r 0 = 0" "r 1 = 1" "r a = a" "0 \<le> a" "0 \<le> e" "e < 1"
  shows "0 \<le> r (r (1 - e) * a)" "r (r (1 - e) * a) \<le> a" "a \<le> r (r (1 + e) * a)"
proof -
  have lo: "0 \<le> r (1 - e)" using monoD [OF assms(1), of 0 "1 - e"] assms by simp
  have hi: "r (1 - e) \<le> 1" using monoD [OF assms(1), of "1 - e" 1] assms by simp
  have up: "1 \<le> r (1 + e)" using monoD [OF assms(1), of 1 "1 + e"] assms by simp
  have "0 \<le> r (1 - e) * a" using lo assms by simp
  then show "0 \<le> r (r (1 - e) * a)" using monoD [OF assms(1), of 0 "r (1 - e) * a"] assms by simp
  have "r (1 - e) * a \<le> 1 * a" using hi assms by (intro mult_right_mono) auto
  then show "r (r (1 - e) * a) \<le> a" using monoD [OF assms(1), of "r (1 - e) * a" a] assms by simp
  have "1 * a \<le> r (1 + e) * a" using up assms by (intro mult_right_mono) auto
  then show "a \<le> r (r (1 + e) * a)" using monoD [OF assms(1), of a "r (1 + e) * a"] assms by simp
qed

text \<open>
  Nor does the sum depend on it by much: when every rounding has relative error at most
  \<open>u\<close>, the rounded sum of the rounded apsides lies between \<open>(1 - u)\<^sup>3\<close> and
  \<open>(1 + u)\<^sup>3\<close> times twice the semimajor axis.
\<close>

lemma rounded_nonneg:
  fixes r :: "real \<Rightarrow> real" and u x lo hi :: real
  assumes rel: "\<And>x. \<bar>r x - x\<bar> \<le> u * \<bar>x\<bar>" and u: "0 \<le> u" "u \<le> 1"
    and x: "lo \<le> x" "x \<le> hi" "0 \<le> lo"
  shows "(1 - u) * lo \<le> r x" "r x \<le> (1 + u) * hi"
proof -
  have x0: "0 \<le> x" using x by simp
  from rel [of x] x0 have b: "x - u * x \<le> r x" "r x \<le> x + u * x" by auto
  have "(1 - u) * lo \<le> (1 - u) * x" using u x by (intro mult_left_mono) auto
  also have "\<dots> = x - u * x" by (simp add: algebra_simps)
  finally show "(1 - u) * lo \<le> r x" using b by simp
  have "x + u * x = (1 + u) * x" by (simp add: algebra_simps)
  also have "\<dots> \<le> (1 + u) * hi" using u x by (intro mult_left_mono) auto
  finally show "r x \<le> (1 + u) * hi" using b by simp
qed

lemma apsides_sum_under_rounding:
  fixes r :: "real \<Rightarrow> real" and u a e :: real
  assumes rel: "\<And>x. \<bar>r x - x\<bar> \<le> u * \<bar>x\<bar>" and u: "0 \<le> u" "u \<le> 1"
    and a: "0 \<le> a" and e: "0 \<le> e" "e < 1"
  shows "(1 - u) ^ 3 * (2 * a) \<le> r (r (r (1 - e) * a) + r (r (1 + e) * a))"
    and "r (r (r (1 - e) * a) + r (r (1 + e) * a)) \<le> (1 + u) ^ 3 * (2 * a)"
proof -
  note rn = rounded_nonneg [of r u, OF rel u]
  have u1: "0 \<le> 1 - u" "0 \<le> 1 + u" using u by auto
  have A: "(1 - u) * (1 - e) \<le> r (1 - e)" "r (1 - e) \<le> (1 + u) * (1 - e)"
    using rn [of "1 - e" "1 - e" "1 - e"] e by auto
  have B: "(1 - u) * (1 + e) \<le> r (1 + e)" "r (1 + e) \<le> (1 + u) * (1 + e)"
    using rn [of "1 + e" "1 + e" "1 + e"] e by auto
  have Aa: "(1 - u) * (1 - e) * a \<le> r (1 - e) * a" "r (1 - e) * a \<le> (1 + u) * (1 - e) * a"
    using A a by (auto intro: mult_right_mono)
  have Ba: "(1 - u) * (1 + e) * a \<le> r (1 + e) * a" "r (1 + e) * a \<le> (1 + u) * (1 + e) * a"
    using B a by (auto intro: mult_right_mono)
  have lo1: "0 \<le> (1 - u) * (1 - e) * a" "0 \<le> (1 - u) * (1 + e) * a"
    using u1 a e by auto
  have P: "(1 - u) * ((1 - u) * (1 - e) * a) \<le> r (r (1 - e) * a)"
      "r (r (1 - e) * a) \<le> (1 + u) * ((1 + u) * (1 - e) * a)"
    using rn [OF Aa lo1(1)] by auto
  have Q: "(1 - u) * ((1 - u) * (1 + e) * a) \<le> r (r (1 + e) * a)"
      "r (r (1 + e) * a) \<le> (1 + u) * ((1 + u) * (1 + e) * a)"
    using rn [OF Ba lo1(2)] by auto
  have S: "(1 - u) ^ 2 * (2 * a) \<le> r (r (1 - e) * a) + r (r (1 + e) * a)"
      "r (r (1 - e) * a) + r (r (1 + e) * a) \<le> (1 + u) ^ 2 * (2 * a)"
    using P Q by (auto simp: power2_eq_square algebra_simps)
  have lo2: "0 \<le> (1 - u) ^ 2 * (2 * a)" using a by simp
  from rn [OF S lo2]
  show "(1 - u) ^ 3 * (2 * a) \<le> r (r (r (1 - e) * a) + r (r (1 + e) * a))"
    and "r (r (r (1 - e) * a) + r (r (1 + e) * a)) \<le> (1 + u) ^ 3 * (2 * a)"
    by (auto simp: power3_eq_cube power2_eq_square algebra_simps)
qed





section \<open>Calls on the heap\<close>

lemma deref_append:
  assumes "deref h r = Some obj"
  shows "deref (h @ xs) r = Some obj"
  using assms by (auto simp: deref_def nth_append split: if_splits)

lemma deref_fresh: "deref (h @ obj # xs) (length h) = Some obj"
  by (simp add: deref_def)

lemma the_orbit_append:
  assumes "the_orbit h r = Some ob"
  shows "the_orbit (h @ xs) r = Some ob"
proof -
  from assms have "deref h r = Some (OrbitObject ob)"
    by (auto simp: the_orbit_def split: option.splits object.splits)
  then show ?thesis by (simp add: the_orbit_def deref_append)
qed

lemma the_fresh:
  "the_true (h @ TrueObject t # xs) (length h) = Some t"
  "the_eccentric (h @ EccentricObject e # xs) (length h) = Some e"
  "the_mean (h @ MeanObject m # xs) (length h) = Some m"
  by (simp_all add: the_true_def the_eccentric_def the_mean_def deref_fresh)

lemma the_of_deref:
  "deref h r = Some (TrueObject t) \<Longrightarrow> the_true h r = Some t"
  "deref h r = Some (EccentricObject e) \<Longrightarrow> the_eccentric h r = Some e"
  "deref h r = Some (MeanObject m) \<Longrightarrow> the_mean h r = Some m"
  by (simp_all add: the_true_def the_eccentric_def the_mean_def)

lemma unchanged_append: "unchanged h (h @ xs)"
  by (simp add: unchanged_def deref_def nth_append)

lemma reading_total:
  assumes "g h this = Some t" "the_orbit h orbit = Some ob"
  shows "reading g body h this orbit = Some (body t ob, h)"
  using assms by (simp add: reading_def)

lemma constructing_total:
  assumes "g h this = Some t" "the_orbit h orbit = Some ob"
  shows "constructing g body h this orbit = Some (length h, h @ [body t ob])"
  using assms by (simp add: constructing_def new_def)

lemma true_calls:
  assumes t: "the_true h this = Some t" and ob: "the_orbit h orbit = Some ob"
  shows "at_TrueAnomaly_radius h this orbit = Some (TrueAnomaly_radius t ob, h)"
    and "at_TrueAnomaly_point h this orbit = Some (TrueAnomaly_point t ob, h)"
    and "at_TrueAnomaly_point2d h this orbit = Some (TrueAnomaly_point2d t ob, h)"
    and "at_TrueAnomaly_eccentric_anomaly h this orbit =
           Some (length h, h @ [EccentricObject (TrueAnomaly_eccentric_anomaly t ob)])"
  using assms
  by (simp_all add: at_TrueAnomaly_radius_def at_TrueAnomaly_point_def at_TrueAnomaly_point2d_def
      at_TrueAnomaly_eccentric_anomaly_def reading_total constructing_total)

lemma eccentric_calls:
  assumes t: "the_eccentric h this = Some t" and ob: "the_orbit h orbit = Some ob"
  shows "at_EccentricAnomaly_radius h this orbit = Some (EccentricAnomaly_radius t ob, h)"
    and "at_EccentricAnomaly_point h this orbit = Some (EccentricAnomaly_point t ob, h)"
    and "at_EccentricAnomaly_point2d h this orbit = Some (EccentricAnomaly_point2d t ob, h)"
    and "at_EccentricAnomaly_true_anomaly h this orbit =
           Some (length h, h @ [TrueObject (EccentricAnomaly_true_anomaly t ob)])"
    and "at_EccentricAnomaly_mean_anomaly h this orbit =
           Some (length h, h @ [MeanObject (EccentricAnomaly_mean_anomaly t ob)])"
  using assms
  by (simp_all add: at_EccentricAnomaly_radius_def at_EccentricAnomaly_point_def
      at_EccentricAnomaly_point2d_def at_EccentricAnomaly_true_anomaly_def
      at_EccentricAnomaly_mean_anomaly_def reading_total constructing_total)

lemma true_mean_call:
  assumes t: "the_true h this = Some t" and ob: "the_orbit h orbit = Some ob"
  shows "at_TrueAnomaly_mean_anomaly h this orbit =
           Some (Suc (length h),
                 h @ [EccentricObject (TrueAnomaly_eccentric_anomaly t ob),
                      MeanObject (TrueAnomaly_mean_anomaly t ob)])"
  unfolding at_TrueAnomaly_mean_anomaly_def
  by (simp add: chained_def true_calls(4) [OF t ob]
      eccentric_calls(5) [OF the_fresh(2) the_orbit_append [OF ob]] TrueAnomaly_mean_anomaly_def)

lemma mean_eccentric_call:
  assumes t: "the_mean h this = Some t" and ob: "the_orbit h orbit = Some ob"
  shows "at_MeanAnomaly_eccentric_anomaly h this orbit =
           Some (length h, h @ [EccentricObject (MeanAnomaly_eccentric_anomaly t ob)])"
  using assms by (simp add: at_MeanAnomaly_eccentric_anomaly_def constructing_total)

lemma mean_calls:
  assumes t: "the_mean h this = Some t" and ob: "the_orbit h orbit = Some ob"
  shows "at_MeanAnomaly_true_anomaly h this orbit =
           Some (Suc (length h),
                 h @ [EccentricObject (MeanAnomaly_eccentric_anomaly t ob),
                      TrueObject (MeanAnomaly_true_anomaly t ob)])"
    and "at_MeanAnomaly_point h this orbit =
           Some (MeanAnomaly_point t ob,
                 h @ [EccentricObject (MeanAnomaly_eccentric_anomaly t ob)])"
    and "at_MeanAnomaly_point2d h this orbit =
           Some (MeanAnomaly_point2d t ob,
                 h @ [EccentricObject (MeanAnomaly_eccentric_anomaly t ob)])"
proof -
  let ?E = "MeanAnomaly_eccentric_anomaly t ob"
  let ?h = "h @ [EccentricObject ?E]"
  note first = mean_eccentric_call [OF t ob]
  note second =
    eccentric_calls [of ?h "length h" ?E orbit ob, OF the_fresh(2) the_orbit_append [OF ob]]
  show "at_MeanAnomaly_true_anomaly h this orbit =
          Some (Suc (length h),
                h @ [EccentricObject ?E, TrueObject (MeanAnomaly_true_anomaly t ob)])"
    unfolding at_MeanAnomaly_true_anomaly_def
    by (simp add: chained_def first second MeanAnomaly_true_anomaly_def)
  show "at_MeanAnomaly_point h this orbit = Some (MeanAnomaly_point t ob, ?h)"
    unfolding at_MeanAnomaly_point_def
    by (simp add: chained_def first second MeanAnomaly_point_def)
  show "at_MeanAnomaly_point2d h this orbit = Some (MeanAnomaly_point2d t ob, ?h)"
    unfolding at_MeanAnomaly_point2d_def
    by (simp add: chained_def first second MeanAnomaly_point2d_def)
qed

lemma radius_at_mean_anomaly_call:
  assumes t: "the_mean h this = Some t" and ob: "the_orbit h orbit = Some ob"
  shows "at_radius_at_mean_anomaly h this orbit =
           Some (radius_at_mean_anomaly t ob,
                 h @ [EccentricObject (MeanAnomaly_eccentric_anomaly t ob),
                      TrueObject (MeanAnomaly_true_anomaly t ob)])"
proof -
  let ?h = "h @ [EccentricObject (MeanAnomaly_eccentric_anomaly t ob),
                 TrueObject (MeanAnomaly_true_anomaly t ob)]"
  have "the_true ?h (Suc (length h)) = Some (MeanAnomaly_true_anomaly t ob)"
    using the_fresh(1) [of "h @ [EccentricObject (MeanAnomaly_eccentric_anomaly t ob)]" _ "[]"]
    by simp
  then have "at_TrueAnomaly_radius ?h (Suc (length h)) orbit =
        Some (TrueAnomaly_radius (MeanAnomaly_true_anomaly t ob) ob, ?h)"
    using the_orbit_append [OF ob] by (intro true_calls(1))
  then have "chained at_MeanAnomaly_true_anomaly at_TrueAnomaly_radius h this orbit =
        Some (TrueAnomaly_radius (MeanAnomaly_true_anomaly t ob) ob, ?h)"
    by (simp add: chained_def mean_calls(1) [OF t ob])
  then show ?thesis
    by (simp add: at_radius_at_mean_anomaly_def radius_at_mean_anomaly_def)
qed

lemma deref_second: "deref (h @ [x, y]) (Suc (length h)) = Some y"
  by (simp add: deref_def nth_append)

text \<open>
  A call on an anomaly object appends the objects it allocates to the heap; a reference
  it returns is to one of them, an anomaly object, and a conversion returns a reference to
  the anomaly it constructed.
\<close>

lemma call_shape:
  assumes d: "deref h this = Some obj" and a: "anomaly obj" and ob: "the_orbit h orbit = Some ob"
  shows "\<exists>res xs. call h this m orbit = Some (res, h @ xs) \<and>
           (\<forall>r. res = Ref_result r \<longrightarrow>
                  length h \<le> r \<and> (\<exists>made. deref (h @ xs) r = Some made \<and> anomaly made)) \<and>
           (conversion obj m \<longrightarrow> (\<exists>r. res = Ref_result r)) \<and>
           (\<forall>t. obj = TrueObject t \<and> m = Eccentric_anomaly \<longrightarrow>
                  returns_object res (h @ xs)
                    (EccentricObject (TrueAnomaly_eccentric_anomaly t ob))) \<and>
           (\<forall>t. obj = TrueObject t \<and> m = Mean_anomaly \<longrightarrow>
                  returns_object res (h @ xs) (MeanObject (TrueAnomaly_mean_anomaly t ob))) \<and>
           (\<forall>t. obj = EccentricObject t \<and> m = True_anomaly \<longrightarrow>
                  returns_object res (h @ xs)
                    (TrueObject (EccentricAnomaly_true_anomaly t ob))) \<and>
           (\<forall>t. obj = EccentricObject t \<and> m = Mean_anomaly \<longrightarrow>
                  returns_object res (h @ xs)
                    (MeanObject (EccentricAnomaly_mean_anomaly t ob))) \<and>
           (\<forall>t. obj = MeanObject t \<and> m = True_anomaly \<longrightarrow>
                  returns_object res (h @ xs) (TrueObject (MeanAnomaly_true_anomaly t ob))) \<and>
           (\<forall>t. obj = MeanObject t \<and> m = Eccentric_anomaly \<longrightarrow>
                  returns_object res (h @ xs)
                    (EccentricObject (MeanAnomaly_eccentric_anomaly t ob)))"
proof (cases obj)
  case (OrbitObject x)
  with a show ?thesis by simp
next
  case (TrueObject t)
  note t = the_of_deref(1) [OF d [unfolded TrueObject]]
  show ?thesis
    by (cases m)
       (simp_all add: call_def d TrueObject returning_def not_a_function_def
          true_calls [OF t ob] true_mean_call [OF t ob] returns_object_def
          deref_fresh deref_second)
next
  case (EccentricObject e)
  note t = the_of_deref(2) [OF d [unfolded EccentricObject]]
  show ?thesis
    by (cases m)
       (simp_all add: call_def d EccentricObject returning_def not_a_function_def
          eccentric_calls [OF t ob] returns_object_def deref_fresh split: sum.splits)
next
  case (MeanObject x)
  note t = the_of_deref(3) [OF d [unfolded MeanObject]]
  show ?thesis
    by (cases m)
       (simp_all add: call_def d MeanObject returning_def not_a_function_def
          mean_calls [OF t ob] mean_eccentric_call [OF t ob]
          radius_at_mean_anomaly_call [OF t ob] returns_object_def deref_fresh deref_second
          split: js_value.splits)
qed

text \<open>\<open>set_degrees\<close> does what no conversion does: it writes the receiver and returns it.\<close>

lemma set_degrees_returns_receiver:
  assumes "deref h this = Some (TrueObject t)"
  shows "at_set_degrees h this (Fin d) =
           Some (this, h[this := TrueObject (TrueAnomaly (Fin (d * (pi / 180))))])"
  using assms by (simp add: at_set_degrees_def Math_PI_def)

text \<open>
  C9. For an orbit object and an anomaly object of a heap, every call of \<open>radius\<close>,
  \<open>point\<close>, \<open>point2d\<close>, \<open>eccentric_anomaly\<close>, \<open>true_anomaly\<close>, \<open>mean_anomaly\<close>
  or \<open>radius_at_mean_anomaly\<close> on the anomaly, and every call of an accessor on the
  orbit, completes and leaves every object that existed before the call with the fields
  it had, the receiver and the orbit among them. A reference that is returned is to an
  anomaly object allocated by the call: it is neither the receiver nor the orbit. Each of
  the six conversions returns a reference to a new object of the class converted to,
  holding the angle the conversion computes.
\<close>

theorem calls_leave_objects_unchanged:
  assumes d: "deref h this = Some obj" and a: "anomaly obj" and ob: "the_orbit h orbit = Some ob"
  shows "(\<exists>res h'. call h this m orbit = Some (res, h') \<and>
            unchanged h h' \<and> deref h' this = Some obj \<and> the_orbit h' orbit = Some ob \<and>
            (\<forall>r. res = Ref_result r \<longrightarrow>
                   r \<noteq> this \<and> r \<noteq> orbit \<and> deref h r = None \<and>
                   (\<exists>made. deref h' r = Some made \<and> anomaly made)) \<and>
            (conversion obj m \<longrightarrow> (\<exists>r. res = Ref_result r)) \<and>
            (\<forall>t. obj = TrueObject t \<and> m = Eccentric_anomaly \<longrightarrow>
                   returns_object res h' (EccentricObject (TrueAnomaly_eccentric_anomaly t ob))) \<and>
            (\<forall>t. obj = TrueObject t \<and> m = Mean_anomaly \<longrightarrow>
                   returns_object res h' (MeanObject (TrueAnomaly_mean_anomaly t ob))) \<and>
            (\<forall>t. obj = EccentricObject t \<and> m = True_anomaly \<longrightarrow>
                   returns_object res h' (TrueObject (EccentricAnomaly_true_anomaly t ob))) \<and>
            (\<forall>t. obj = EccentricObject t \<and> m = Mean_anomaly \<longrightarrow>
                   returns_object res h' (MeanObject (EccentricAnomaly_mean_anomaly t ob))) \<and>
            (\<forall>t. obj = MeanObject t \<and> m = True_anomaly \<longrightarrow>
                   returns_object res h' (TrueObject (MeanAnomaly_true_anomaly t ob))) \<and>
            (\<forall>t. obj = MeanObject t \<and> m = Eccentric_anomaly \<longrightarrow>
                   returns_object res h'
                     (EccentricObject (MeanAnomaly_eccentric_anomaly t ob)))) \<and>
         (\<exists>res. call_orbit h orbit om = Some (res, h))"
proof -
  from call_shape [OF d a ob, of m] obtain res xs where
    c: "call h this m orbit = Some (res, h @ xs)" and
    f: "\<forall>r. res = Ref_result r \<longrightarrow>
             length h \<le> r \<and> (\<exists>made. deref (h @ xs) r = Some made \<and> anomaly made)" and
    rest: "(conversion obj m \<longrightarrow> (\<exists>r. res = Ref_result r)) \<and>
           (\<forall>t. obj = TrueObject t \<and> m = Eccentric_anomaly \<longrightarrow>
                  returns_object res (h @ xs)
                    (EccentricObject (TrueAnomaly_eccentric_anomaly t ob))) \<and>
           (\<forall>t. obj = TrueObject t \<and> m = Mean_anomaly \<longrightarrow>
                  returns_object res (h @ xs) (MeanObject (TrueAnomaly_mean_anomaly t ob))) \<and>
           (\<forall>t. obj = EccentricObject t \<and> m = True_anomaly \<longrightarrow>
                  returns_object res (h @ xs)
                    (TrueObject (EccentricAnomaly_true_anomaly t ob))) \<and>
           (\<forall>t. obj = EccentricObject t \<and> m = Mean_anomaly \<longrightarrow>
                  returns_object res (h @ xs)
                    (MeanObject (EccentricAnomaly_mean_anomaly t ob))) \<and>
           (\<forall>t. obj = MeanObject t \<and> m = True_anomaly \<longrightarrow>
                  returns_object res (h @ xs) (TrueObject (MeanAnomaly_true_anomaly t ob))) \<and>
           (\<forall>t. obj = MeanObject t \<and> m = Eccentric_anomaly \<longrightarrow>
                  returns_object res (h @ xs)
                    (EccentricObject (MeanAnomaly_eccentric_anomaly t ob)))"
    by blast
  have lt: "this < length h" "orbit < length h"
    using d ob by (auto simp: deref_def the_orbit_def split: if_splits)
  have fresh: "r \<noteq> this \<and> r \<noteq> orbit \<and> deref h r = None \<and>
               (\<exists>made. deref (h @ xs) r = Some made \<and> anomaly made)"
    if "res = Ref_result r" for r
  proof -
    from f that have "length h \<le> r" "\<exists>made. deref (h @ xs) r = Some made \<and> anomaly made"
      by auto
    then show ?thesis using lt by (auto simp: deref_def)
  qed
  have frame: "unchanged h (h @ xs) \<and> deref (h @ xs) this = Some obj \<and>
               the_orbit (h @ xs) orbit = Some ob"
    using unchanged_append deref_append [OF d] the_orbit_append [OF ob] by blast
  have "\<exists>res. call_orbit h orbit om = Some (res, h)"
    using ob by (simp add: call_orbit_def)
  with c fresh frame rest show ?thesis by blast
qed

theorem calls_leave_objects_unchanged_witness:
  "deref [OrbitObject (new_KeplerianOrbit (Fin 1) (Fin 0) (Fin 0) False),
          MeanObject (MeanAnomaly (Fin 2))] 1 = Some (MeanObject (MeanAnomaly (Fin 2))) \<and>
   anomaly (MeanObject (MeanAnomaly (Fin 2))) \<and>
   the_orbit [OrbitObject (new_KeplerianOrbit (Fin 1) (Fin 0) (Fin 0) False),
              MeanObject (MeanAnomaly (Fin 2))] 0 =
     Some (new_KeplerianOrbit (Fin 1) (Fin 0) (Fin 0) False) \<and>
   call [OrbitObject (new_KeplerianOrbit (Fin 1) (Fin 0) (Fin 0) False),
         MeanObject (MeanAnomaly (Fin 2))] 1 Eccentric_anomaly 0 =
     Some (Ref_result 2,
           [OrbitObject (new_KeplerianOrbit (Fin 1) (Fin 0) (Fin 0) False),
            MeanObject (MeanAnomaly (Fin 2)),
            EccentricObject (EccentricAnomaly (Fin 2))]) \<and>
   returns_object (Ref_result 2)
     [OrbitObject (new_KeplerianOrbit (Fin 1) (Fin 0) (Fin 0) False),
      MeanObject (MeanAnomaly (Fin 2)),
      EccentricObject (EccentricAnomaly (Fin 2))]
     (EccentricObject
        (MeanAnomaly_eccentric_anomaly (MeanAnomaly (Fin 2))
           (new_KeplerianOrbit (Fin 1) (Fin 0) (Fin 0) False))) \<and>
   call_orbit [OrbitObject (new_KeplerianOrbit (Fin 1) (Fin 0) (Fin 0) False),
               MeanObject (MeanAnomaly (Fin 2))] 0 Periapsis =
     Some (Number_result (Fin 1),
           [OrbitObject (new_KeplerianOrbit (Fin 1) (Fin 0) (Fin 0) False),
            MeanObject (MeanAnomaly (Fin 2))])"
proof -
  let ?O = "new_KeplerianOrbit (Fin 1) (Fin 0) (Fin 0) False"
  let ?h = "[OrbitObject ?O, MeanObject (MeanAnomaly (Fin 2))]"
  have d: "deref ?h 1 = Some (MeanObject (MeanAnomaly (Fin 2)))"
    by (simp add: deref_def)
  have a: "anomaly (MeanObject (MeanAnomaly (Fin 2)))"
    by simp
  have ob: "the_orbit ?h 0 = Some ?O"
    by (simp add: the_orbit_def deref_def)
  have e: "eccentricity ?O = Fin 0"
    by (simp add: new_KeplerianOrbit_def Math_abs_def)
  have c: "call ?h 1 Eccentric_anomaly 0 =
             Some (Ref_result 2, ?h @ [EccentricObject (EccentricAnomaly (Fin 2))])"
    unfolding call_def d mean_eccentric_call [OF the_of_deref(3) [OF d] ob]
    by (simp add: returning_def eccentric_anomaly_circular [OF e])
  have p: "call_orbit ?h 0 Periapsis = Some (Number_result (Fin 1), ?h)"
    unfolding call_orbit_def ob
    by (simp add: periapsis_def new_KeplerianOrbit_def Math_abs_def)
  have r: "returns_object (Ref_result 2) (?h @ [EccentricObject (EccentricAnomaly (Fin 2))])
             (EccentricObject (MeanAnomaly_eccentric_anomaly (MeanAnomaly (Fin 2)) ?O))"
    unfolding eccentric_anomaly_circular [OF e] by (simp add: returns_object_def deref_def)
  show ?thesis
    using d a ob c p r
      calls_leave_objects_unchanged [OF d a ob, of Eccentric_anomaly Periapsis]
    by simp
qed

end
